theory Spec2Isabelle
  imports Main "HOL-Library.Word"
begin

section \<open>Exceptions, undefined behaviour and output streams\<close>

text \<open>
  The two standard exceptions the program throws, each carrying the message that
  \<^verbatim>\<open>what()\<close> returns.
\<close>

datatype exn = invalid_argument string | out_of_range string

fun what :: "exn \<Rightarrow> string" where
  "what (invalid_argument m) = m"
| "what (out_of_range m) = m"

text \<open>
  The places where the program leaves defined behaviour are results of their own, so that
  no model function silently invents a value there.
\<close>

datatype ub = NullDereference | DanglingPointer | OutOfBounds | MissingReturn | IndeterminateValue

definition ub_bind :: "ub + 'a \<Rightarrow> ('a \<Rightarrow> ub + 'b) \<Rightarrow> ub + 'b" where
  "ub_bind m f = (case m of Inl e \<Rightarrow> Inl e | Inr v \<Rightarrow> f v)"

text \<open>
  An output stream is the sequence of characters written to it so far; \<^verbatim>\<open>'\n'\<close> is
  the character \<open>nl\<close>.
\<close>

type_synonym ostream = string

definition nl :: char where
  "nl = CHR 0x0A"

text \<open>Decimal rendering of integers, as the stream inserters for integer types produce it.\<close>

definition digit_char :: "nat \<Rightarrow> char" where
  "digit_char d = ''0123456789'' ! d"

function show_nat :: "nat \<Rightarrow> string" where
  "show_nat n = (if n < 10 then [digit_char n] else show_nat (n div 10) @ [digit_char (n mod 10)])"
  by pat_completeness auto
termination
  by (relation "measure id") auto

declare show_nat.simps [simp del]

definition show_int :: "int \<Rightarrow> string" where
  "show_int i = (if i < 0 then ''-'' @ show_nat (nat (- i)) else show_nat (nat i))"

section \<open>Unit 1: the input validator\<close>

text \<open>
  \<^verbatim>\<open>std::cin >> s\<close> skips leading whitespace and reads up to the next whitespace; when
  the input holds no token, \<^verbatim>\<open>s\<close> is left empty.
\<close>

definition isspace :: "char \<Rightarrow> bool" where
  "isspace c = (c \<in> set [CHR '' '', CHR 0x09, CHR 0x0A, CHR 0x0B, CHR 0x0C, CHR 0x0D])"

definition cin_token :: "string \<Rightarrow> string" where
  "cin_token inp = takeWhile (\<lambda>c. \<not> isspace c) (dropWhile isspace inp)"

text \<open>The body of the try block: a throw is \<open>Inl\<close>, normal completion is the stream.\<close>

definition try_body :: "string \<Rightarrow> ostream \<Rightarrow> exn + ostream" where
  "try_body s os =
     (if length s > 10 then Inl (out_of_range ''Out of range'')
      else if length s < 5 then Inl (invalid_argument ''invalid argument'')
      else Inr (os @ s @ [nl]))"

text \<open>The try block with its two handlers, in the order the source lists them.\<close>

definition validator :: "string \<Rightarrow> ostream \<Rightarrow> ostream" where
  "validator s os =
     (case try_body s os of
        Inl (out_of_range m) \<Rightarrow> os @ what (out_of_range m) @ [nl]
      | Inl (invalid_argument m) \<Rightarrow> os @ what (invalid_argument m) @ [nl]
      | Inr os' \<Rightarrow> os')"

section \<open>Unit 2: the fixed-size vector\<close>

text \<open>
  \<^verbatim>\<open>Vec<T, N>\<close> wraps the array \<^verbatim>\<open>T data[N]\<close>: a list whose length is \<open>N\<close>.
\<close>

type_synonym 'a Vec = "'a list"

text \<open>The default constructor value-initialises the array.\<close>

definition Vec_default :: "nat \<Rightarrow> 'a::zero Vec" where
  "Vec_default N = replicate N 0"

text \<open>\<^verbatim>\<open>std::copy(first, last, dst)\<close> overwrites the leading elements of the destination.\<close>

definition std_copy :: "'a list \<Rightarrow> 'a list \<Rightarrow> 'a list" where
  "std_copy src dst = src @ drop (length src) dst"

text \<open>
  The initializer-list constructor. The member \<^verbatim>\<open>data\<close> is not named in an initialiser,
  so before the copy it holds whatever its storage held: \<open>raw i\<close> at index \<open>i\<close>.
\<close>

definition Vec_init :: "nat \<Rightarrow> (nat \<Rightarrow> 'a) \<Rightarrow> 'a list \<Rightarrow> exn + 'a Vec" where
  "Vec_init N raw il =
     (if length il \<noteq> N then Inl (invalid_argument ''Wrong number of arguments!'')
      else Inr (std_copy il (map raw [0..<N])))"

text \<open>
  The copy constructor copies the \<open>N\<close> elements of \<open>v\<close> over the array, which held
  \<open>raw i\<close> at index \<open>i\<close> before.
\<close>

definition Vec_copy :: "(nat \<Rightarrow> 'a) \<Rightarrow> 'a Vec \<Rightarrow> 'a Vec" where
  "Vec_copy raw v = std_copy v (map raw [0..<length v])"

text \<open>
  \<^verbatim>\<open>operator+\<close>: the size check, a default-constructed result, and the loop
  \<^verbatim>\<open>for (int i = 0; i < M; i++) result[i] = data[i] + v[i];\<close>
  The result is returned by value: the caller receives the local vector itself or a copy
  of it, which holds the same elements (\<open>Vec_copy_same\<close> below).
\<close>

function add_loop :: "nat \<Rightarrow> nat \<Rightarrow> 'a::plus list \<Rightarrow> 'a list \<Rightarrow> 'a list \<Rightarrow> 'a list" where
  "add_loop i M data v result =
     (if i < M then add_loop (i + 1) M data v (result[i := data ! i + v ! i]) else result)"
  by pat_completeness auto
termination
  by (relation "measure (\<lambda>(i, M, data, v, result). M - i)") auto

declare add_loop.simps [simp del]

definition Vec_add :: "'a::{zero,plus} Vec \<Rightarrow> 'a Vec \<Rightarrow> exn + 'a Vec" where
  "Vec_add data v =
     (let N = length data; M = length v in
      if N \<noteq> M then Inl (invalid_argument ''Vector size mismatch!'')
      else Inr (add_loop 0 M data v (Vec_default M)))"

text \<open>\<^verbatim>\<open>operator*\<close>: the same shape with the element-wise product.\<close>

function mul_loop :: "nat \<Rightarrow> nat \<Rightarrow> 'a::times list \<Rightarrow> 'a list \<Rightarrow> 'a list \<Rightarrow> 'a list" where
  "mul_loop i M data v result =
     (if i < M then mul_loop (i + 1) M data v (result[i := data ! i * v ! i]) else result)"
  by pat_completeness auto
termination
  by (relation "measure (\<lambda>(i, M, data, v, result). M - i)") auto

declare mul_loop.simps [simp del]

definition Vec_mul :: "'a::{zero,times} Vec \<Rightarrow> 'a Vec \<Rightarrow> exn + 'a Vec" where
  "Vec_mul data v =
     (let N = length data; M = length v in
      if N \<noteq> M then Inl (invalid_argument ''Vector size mismatch!'')
      else Inr (mul_loop 0 M data v (Vec_default M)))"

text \<open>
  The stream inserter of \<^verbatim>\<open>Vec\<close>. \<open>sh\<close> gives the characters that inserting one
  element writes. The source writes the opening bracket, runs
  \<^verbatim>\<open>for (int i = 0; i < N - 1; i++) os << v.data[i] << ", ";\<close>
  writes the last element and the closing bracket, and ends there: the function is
  declared to return \<^verbatim>\<open>std::ostream&\<close> and has no return statement. The model
  returns the stream's content together with what the caller receives: \<open>Inr\<close> a
  stream to go on writing to, or \<open>Inl\<close> the reason there is none. With \<open>N = 0\<close> the
  bound \<^verbatim>\<open>N - 1\<close> wraps around and the loop reads outside the array.
\<close>

function render_loop :: "('a \<Rightarrow> string) \<Rightarrow> nat \<Rightarrow> nat \<Rightarrow> 'a list \<Rightarrow> ostream \<Rightarrow> ostream" where
  "render_loop sh i n data os =
     (if i < n then render_loop sh (i + 1) n data (os @ sh (data ! i) @ '', '') else os)"
  by pat_completeness auto
termination
  by (relation "measure (\<lambda>(sh, i, n, data, os). n - i)") auto

declare render_loop.simps [simp del]

definition Vec_insert :: "('a \<Rightarrow> string) \<Rightarrow> ostream \<Rightarrow> 'a Vec \<Rightarrow> ostream \<times> (ub + ostream)" where
  "Vec_insert sh os v =
     (let N = length v; os1 = os @ ''['' in
      if N = 0 then (os1, Inl OutOfBounds)
      else
        let os2 = render_loop sh 0 (N - 1) v os1;
            os3 = os2 @ sh (v ! (N - 1)) @ '']''
        in (os3, Inl MissingReturn))"

subsection \<open>Elements of type float\<close>

text \<open>
  \<^verbatim>\<open>float\<close> is the IEEE-754 single-precision format, evaluated in single precision and
  rounded to nearest, ties to even. A finite value is an integer significand times a
  power of two; the sign of a zero is not kept. Exact values on the way are fractions
  \<open>n / d\<close> of integers, \<open>n\<close> not negative and \<open>d\<close> positive.

  \<open>ilog b n\<close> is the number of times \<open>n\<close> can be divided by \<open>b\<close> before it falls below
  \<open>b\<close>; \<open>scaled b k n d\<close> is the fraction \<open>n / d\<close> divided by \<open>b ^ k\<close>;
  \<open>floor_log b n d\<close> is the largest \<open>k\<close> with \<open>b ^ k \<le> n / d\<close>.
\<close>

function ilog :: "int \<Rightarrow> int \<Rightarrow> int" where
  "ilog b n = (if b < 2 \<or> n < b then 0 else ilog b (n div b) + 1)"
  by pat_completeness auto
termination
proof (relation "measure (\<lambda>(b, n). nat n)")
  fix b n :: int
  assume "\<not> (b < 2 \<or> n < b)"
  then have "2 \<le> b" and "b \<le> n"
    by simp_all
  then have "n div b < n"
    by (simp add: int_div_less_self)
  with \<open>2 \<le> b\<close> \<open>b \<le> n\<close> show "((b, n div b), (b, n)) \<in> measure (\<lambda>(b, n). nat n)"
    by simp
qed simp

declare ilog.simps [simp del]

definition scaled :: "int \<Rightarrow> int \<Rightarrow> int \<Rightarrow> int \<Rightarrow> int \<times> int" where
  "scaled b k n d = (if k < 0 then (n * b ^ nat (- k), d) else (n, d * b ^ nat k))"

definition floor_log :: "int \<Rightarrow> int \<Rightarrow> int \<Rightarrow> int" where
  "floor_log b n d =
     (let k = ilog b n - ilog b d;
          (num, den) = scaled b k n d
      in if den \<le> num then k else k - 1)"

text \<open>The integer nearest to a fraction, the even one of two equally near.\<close>

fun round_half_even :: "int \<times> int \<Rightarrow> int" where
  "round_half_even (num, den) =
     (let q = num div den; r = num mod den
      in if den < 2 * r \<or> (2 * r = den \<and> odd q) then q + 1 else q)"

text \<open>
  Rounding \<open>n / d\<close> to a significand of \<open>p\<close> bits with an exponent between \<open>emin\<close>
  (below it the significand loses bits: the subnormal range) and \<open>emax\<close> (above it the
  result is not finite: \<open>None\<close>).
\<close>

definition fp_round :: "nat \<Rightarrow> int \<Rightarrow> int \<Rightarrow> int \<Rightarrow> int \<Rightarrow> (int \<times> int) option" where
  "fp_round p emin emax n d =
     (if n = 0 then Some (0, 0)
      else
        let e = max emin (floor_log 2 n d - (int p - 1));
            m = round_half_even (scaled 2 e n d);
            (m, e) = (if m = 2 ^ p then (2 ^ (p - 1), e + 1) else (m, e))
        in if emax < e then None else Some (m, e))"

text \<open>
  A literal such as \<^verbatim>\<open>0.1\<close> is a \<^verbatim>\<open>double\<close>: the decimal fraction \<open>n / d\<close>, here
  \<open>1 / 10\<close>, rounded to 53 bits.
\<close>

definition double_literal :: "int \<Rightarrow> int \<Rightarrow> (int \<times> int) option" where
  "double_literal n d = fp_round 53 (- 1074) 971 n d"

datatype binary32 = Finite int int | PlusInf | MinusInf | NaN

text \<open>\<open>round32 s e\<close> is the exact value \<open>s * 2 ^ e\<close> rounded to a \<^verbatim>\<open>float\<close>.\<close>

definition round32 :: "int \<Rightarrow> int \<Rightarrow> binary32" where
  "round32 s e =
     (let (n, d) = scaled 2 (- e) \<bar>s\<bar> 1
      in case fp_round 24 (- 149) 104 n d of
           None \<Rightarrow> (if s < 0 then MinusInf else PlusInf)
         | Some (m, e') \<Rightarrow> Finite (if s < 0 then - m else m) e')"

text \<open>
  The braces of \<^verbatim>\<open>Vec<float, 3> f{0.1, 0.2, 0.3}\<close> convert each \<^verbatim>\<open>double\<close> literal
  to \<^verbatim>\<open>float\<close>.
\<close>

definition float_of_double :: "(int \<times> int) option \<Rightarrow> binary32" where
  "float_of_double x = (case x of None \<Rightarrow> PlusInf | Some (m, e) \<Rightarrow> round32 m e)"

definition float_literal :: "int \<Rightarrow> int \<Rightarrow> binary32" where
  "float_literal n d = float_of_double (double_literal n d)"

text \<open>Addition and multiplication: the exact result, rounded once.\<close>

fun fadd :: "binary32 \<Rightarrow> binary32 \<Rightarrow> binary32" where
  "fadd NaN b = NaN"
| "fadd a NaN = NaN"
| "fadd (Finite m1 e1) (Finite m2 e2) =
     (let e = min e1 e2 in round32 (m1 * 2 ^ nat (e1 - e) + m2 * 2 ^ nat (e2 - e)) e)"
| "fadd (Finite m e) b = b"
| "fadd a (Finite m e) = a"
| "fadd a b = (if a = b then a else NaN)"

fun fmul :: "binary32 \<Rightarrow> binary32 \<Rightarrow> binary32" where
  "fmul NaN b = NaN"
| "fmul a NaN = NaN"
| "fmul (Finite m1 e1) (Finite m2 e2) = round32 (m1 * m2) (e1 + e2)"
| "fmul (Finite m e) b =
     (if m = 0 then NaN else if (0 < m) = (b = PlusInf) then PlusInf else MinusInf)"
| "fmul a (Finite m e) =
     (if m = 0 then NaN else if (0 < m) = (a = PlusInf) then PlusInf else MinusInf)"
| "fmul a b = (if a = b then PlusInf else MinusInf)"

instantiation binary32 :: "{zero, plus, times}"
begin

definition zero_binary32 :: binary32 where
  "zero_binary32 = Finite 0 0"

definition plus_binary32 :: "binary32 \<Rightarrow> binary32 \<Rightarrow> binary32" where
  "plus_binary32 = fadd"

definition times_binary32 :: "binary32 \<Rightarrow> binary32 \<Rightarrow> binary32" where
  "times_binary32 = fmul"

instance ..

end

text \<open>
  Inserting a \<^verbatim>\<open>float\<close> into a stream with the default flags writes it as
  \<^verbatim>\<open>printf\<close> does with \<^verbatim>\<open>%g\<close>: six significant decimal digits, trailing zeros
  removed, the exponent form when the decimal exponent is below -4 or at least 6.
\<close>

definition strip_zeros :: "string \<Rightarrow> string" where
  "strip_zeros s = rev (dropWhile (\<lambda>c. c = CHR ''0'') (rev s))"

definition with_fraction :: "string \<Rightarrow> string \<Rightarrow> string" where
  "with_fraction ip frac = (if frac = [] then ip else ip @ ''.'' @ frac)"

definition show_g6 :: "int \<Rightarrow> int \<Rightarrow> string" where
  "show_g6 n d =
     (let X0 = floor_log 10 n d;
          D = round_half_even (scaled 10 (X0 - 5) n d);
          (D, X) = (if D = 10 ^ 6 then (10 ^ 5, X0 + 1) else (D, X0));
          ds = show_int D
      in if X < - 4 \<or> 6 \<le> X
         then with_fraction (take 1 ds) (strip_zeros (drop 1 ds)) @ ''e''
                @ (if X < 0 then ''-'' else ''+'')
                @ (if \<bar>X\<bar> < 10 then ''0'' else []) @ show_nat (nat \<bar>X\<bar>)
         else if 0 \<le> X
         then with_fraction (take (nat X + 1) ds) (strip_zeros (drop (nat X + 1) ds))
         else with_fraction ''0'' (strip_zeros (replicate (nat (- X) - 1) (CHR ''0'') @ ds)))"

definition show_float :: "binary32 \<Rightarrow> string" where
  "show_float x =
     (case x of
        Finite m e \<Rightarrow>
          if m = 0 then ''0''
          else let (n, d) = scaled 2 (- e) \<bar>m\<bar> 1
               in (if m < 0 then ''-'' else []) @ show_g6 n d
      | PlusInf \<Rightarrow> ''inf''
      | MinusInf \<Rightarrow> ''-inf''
      | NaN \<Rightarrow> ''nan'')"

text \<open>
  The vector part of \<^verbatim>\<open>main\<close> up to the first output: the three vectors, and
  \<^verbatim>\<open>std::cout << (f * g) + f\<close>. An exception here is not caught.
\<close>

definition exn_bind :: "exn + 'a \<Rightarrow> ('a \<Rightarrow> exn + 'b) \<Rightarrow> exn + 'b" where
  "exn_bind m k = (case m of Inl e \<Rightarrow> Inl e | Inr v \<Rightarrow> k v)"

definition vec_scenario :: "(nat \<Rightarrow> binary32) \<Rightarrow> ostream \<Rightarrow> exn + ostream \<times> (ub + ostream)" where
  "vec_scenario raw os =
     exn_bind (Vec_init 3 raw [float_literal 1 10, float_literal 2 10, float_literal 3 10]) (\<lambda>f.
     exn_bind (Vec_init 3 raw [float_literal 1 10, float_literal 2 10, float_literal 3 10]) (\<lambda>g.
     exn_bind (Vec_init 4 raw [float_literal 1 10, float_literal 2 10, float_literal 3 10,
                               float_literal 5 10]) (\<lambda>h.
     exn_bind (Vec_mul f g) (\<lambda>fg.
     exn_bind (Vec_add fg f) (\<lambda>r. Inr (Vec_insert show_float os r))))))"

section \<open>Unit 3: the ownership demonstration\<close>

subsection \<open>The class hierarchy\<close>

text \<open>
  \<^verbatim>\<open>int\<close> is a 32-bit word, an address a natural number. An object reached through an
  \<^verbatim>\<open>A*\<close> is a \<^verbatim>\<open>B\<close> with its field \<^verbatim>\<open>x\<close> or a \<^verbatim>\<open>C\<close> with its field \<^verbatim>\<open>y\<close>.
  The field of a \<^verbatim>\<open>C\<close> holds a value (\<open>Inr\<close>) or has never been given one
  (\<open>Inl IndeterminateValue\<close>): producing such a value by a read is undefined.
\<close>

type_synonym cint = "32 word"
type_synonym addr = nat

datatype A = B (B_x: cint) | C (C_y: "ub + cint")

text \<open>
  \<^verbatim>\<open>B(int x) : x(x) {}\<close> stores its parameter. \<^verbatim>\<open>C(int x) : y(y) {}\<close> initialises
  the field \<^verbatim>\<open>y\<close> from the field \<^verbatim>\<open>y\<close> itself, which has no value yet when it is
  read; the parameter \<^verbatim>\<open>x\<close> is not used.
\<close>

definition B_ctor :: "cint \<Rightarrow> A" where
  "B_ctor x = B x"

definition C_ctor :: "cint \<Rightarrow> A" where
  "C_ctor x = (let y = Inl IndeterminateValue in C y)"

text \<open>The virtual member \<^verbatim>\<open>foo\<close>, dispatched on the object's own class.\<close>

fun foo :: "A \<Rightarrow> ostream \<Rightarrow> ostream" where
  "foo (B _) os = os @ ''B.foo()'' @ [nl]"
| "foo (C _) os = os @ ''C.foo()'' @ [nl]"

text \<open>
  The destructors. A derived destructor runs its body and then the base destructor.
  \<^verbatim>\<open>~A()\<close> is declared without \<^verbatim>\<open>virtual\<close>.
\<close>

definition A_dtor :: "ostream \<Rightarrow> ostream" where
  "A_dtor os = os @ ''~A()'' @ [nl]"

definition B_dtor :: "ostream \<Rightarrow> ostream" where
  "B_dtor os = A_dtor (os @ ''~B()'' @ [nl])"

definition C_dtor :: "ostream \<Rightarrow> ostream" where
  "C_dtor os = A_dtor (os @ ''~C()'' @ [nl])"

fun most_derived_dtor :: "A \<Rightarrow> ostream \<Rightarrow> ostream" where
  "most_derived_dtor (B _) = B_dtor"
| "most_derived_dtor (C _) = C_dtor"

definition A_dtor_virtual :: bool where
  "A_dtor_virtual = False"

text \<open>
  The inserter of \<^verbatim>\<open>A\<close> writes the object's address between parentheses and returns
  the stream. How an address is written is left to the implementation; the model writes
  it in hexadecimal.
\<close>

definition hex_char :: "nat \<Rightarrow> char" where
  "hex_char d = ''0123456789abcdef'' ! d"

function show_hex :: "nat \<Rightarrow> string" where
  "show_hex n = (if n < 16 then [hex_char n] else show_hex (n div 16) @ [hex_char (n mod 16)])"
  by pat_completeness auto
termination
  by (relation "measure id") auto

declare show_hex.simps [simp del]

definition show_ptr :: "addr \<Rightarrow> string" where
  "show_ptr a = ''0x'' @ show_hex a"

definition A_insert :: "ostream \<Rightarrow> addr \<Rightarrow> ostream \<times> (ub + ostream)" where
  "A_insert os a = (let os' = os @ ''('' @ show_ptr a @ '')'' in (os', Inr os'))"

subsection \<open>The program state\<close>

text \<open>
  The live objects, the next address \<^verbatim>\<open>new\<close> hands out, the control blocks of the
  shared pointers (the managed pointer and the number of owners), and standard output.
\<close>

record control_block =
  managed :: "addr option"
  uses :: nat

record state =
  heap :: "addr \<Rightarrow> A option"
  next_addr :: addr
  blocks :: "nat \<Rightarrow> control_block option"
  next_block :: nat
  cout :: ostream

definition new_B :: "cint \<Rightarrow> state \<Rightarrow> addr \<times> state" where
  "new_B x s =
     (let a = next_addr s
      in (a, s\<lparr>heap := (heap s)(a \<mapsto> B_ctor x), next_addr := a + 1\<rparr>))"

definition new_C :: "cint \<Rightarrow> state \<Rightarrow> addr \<times> state" where
  "new_C x s =
     (let a = next_addr s
      in (a, s\<lparr>heap := (heap s)(a \<mapsto> C_ctor x), next_addr := a + 1\<rparr>))"

text \<open>
  \<^verbatim>\<open>delete p\<close> for a non-null \<^verbatim>\<open>A* p\<close>: the destructor that runs is chosen by the
  object's own class only when the destructor of \<^verbatim>\<open>A\<close> is virtual; otherwise the call
  is bound to \<^verbatim>\<open>~A()\<close>.
\<close>

definition delete_A :: "addr \<Rightarrow> state \<Rightarrow> ub + state" where
  "delete_A a s =
     (case heap s a of
        None \<Rightarrow> Inl DanglingPointer
      | Some obj \<Rightarrow>
          Inr (s\<lparr>cout := (if A_dtor_virtual then most_derived_dtor obj else A_dtor) (cout s),
                 heap := (heap s)(a := None)\<rparr>))"

definition call_foo :: "addr \<Rightarrow> state \<Rightarrow> ub + state" where
  "call_foo a s =
     (case heap s a of
        None \<Rightarrow> Inl DanglingPointer
      | Some obj \<Rightarrow> Inr (s\<lparr>cout := foo obj (cout s)\<rparr>))"

subsection \<open>Exclusive ownership\<close>

text \<open>A \<^verbatim>\<open>unique_ptr<A>\<close> is an address or null (\<open>None\<close>).\<close>

definition make_unique_B :: "cint \<Rightarrow> state \<Rightarrow> addr option \<times> state" where
  "make_unique_B x s = (let (a, s') = new_B x s in (Some a, s'))"

definition make_unique_C :: "cint \<Rightarrow> state \<Rightarrow> addr option \<times> state" where
  "make_unique_C x s = (let (a, s') = new_C x s in (Some a, s'))"

definition unique_ptr_dtor :: "addr option \<Rightarrow> state \<Rightarrow> ub + state" where
  "unique_ptr_dtor p s = (case p of None \<Rightarrow> Inr s | Some a \<Rightarrow> delete_A a s)"

text \<open>
  \<^verbatim>\<open>takes_ownership\<close> receives the pointer by value: the parameter is destroyed when
  the function returns.
\<close>

definition takes_ownership :: "addr option \<Rightarrow> state \<Rightarrow> ub + state" where
  "takes_ownership u_ptr s =
     (case u_ptr of
        None \<Rightarrow> Inl NullDereference
      | Some a \<Rightarrow>
          ub_bind (snd (A_insert (cout s @ ''Took ownership of: '') a))
            (\<lambda>os. unique_ptr_dtor u_ptr (s\<lparr>cout := os @ [nl]\<rparr>)))"

subsection \<open>Shared ownership\<close>

text \<open>
  A \<^verbatim>\<open>shared_ptr<A>\<close> is the number of its control block. Building one from a raw
  pointer makes a block with one owner; copying adds an owner; destroying removes one,
  and the last owner deletes the managed pointer, as the \<^verbatim>\<open>A*\<close> it was given.
\<close>

definition shared_ptr_from_raw :: "addr option \<Rightarrow> state \<Rightarrow> nat \<times> state" where
  "shared_ptr_from_raw p s =
     (let b = next_block s
      in (b, s\<lparr>blocks := (blocks s)(b \<mapsto> \<lparr>managed = p, uses = 1\<rparr>), next_block := b + 1\<rparr>))"

definition shared_ptr_copy :: "nat \<Rightarrow> state \<Rightarrow> state" where
  "shared_ptr_copy b s =
     (case blocks s b of
        None \<Rightarrow> s
      | Some cb \<Rightarrow> s\<lparr>blocks := (blocks s)(b \<mapsto> cb\<lparr>uses := uses cb + 1\<rparr>)\<rparr>)"

definition use_count :: "nat \<Rightarrow> state \<Rightarrow> nat" where
  "use_count b s = (case blocks s b of None \<Rightarrow> 0 | Some cb \<Rightarrow> uses cb)"

definition shared_ptr_get :: "nat \<Rightarrow> state \<Rightarrow> addr option" where
  "shared_ptr_get b s = (case blocks s b of None \<Rightarrow> None | Some cb \<Rightarrow> managed cb)"

definition shared_ptr_dtor :: "nat \<Rightarrow> state \<Rightarrow> ub + state" where
  "shared_ptr_dtor b s =
     (case blocks s b of
        None \<Rightarrow> Inr s
      | Some cb \<Rightarrow>
          if uses cb > 1 then Inr (s\<lparr>blocks := (blocks s)(b \<mapsto> cb\<lparr>uses := uses cb - 1\<rparr>)\<rparr>)
          else
            let s' = s\<lparr>blocks := (blocks s)(b := None)\<rparr>
            in (case managed cb of None \<Rightarrow> Inr s' | Some a \<Rightarrow> delete_A a s'))"

text \<open>The line \<^verbatim>\<open>std::cout << "use_count: " << s_ptr.use_count() << '\n';\<close>\<close>

definition print_use_count :: "nat \<Rightarrow> state \<Rightarrow> state" where
  "print_use_count s_ptr s =
     s\<lparr>cout := cout s @ ''use_count: '' @ show_int (int (use_count s_ptr s)) @ [nl]\<rparr>"

text \<open>The line \<^verbatim>\<open>std::cout << "Took ownership of: " << *s_ptr << '\n';\<close>\<close>

definition print_took :: "nat \<Rightarrow> state \<Rightarrow> ub + state" where
  "print_took s_ptr s =
     (case shared_ptr_get s_ptr s of
        None \<Rightarrow> Inl NullDereference
      | Some a \<Rightarrow>
          ub_bind (snd (A_insert (cout s @ ''Took ownership of: '') a))
            (\<lambda>os. Inr (s\<lparr>cout := os @ [nl]\<rparr>)))"

text \<open>
  Both functions receive the pointer by value. The caller initialises the parameter and
  the function destroys it when it returns. \<^verbatim>\<open>shared_ownership\<close> passes its own
  parameter on, an lvalue: that is a copy.
\<close>

definition shared_ownership2 :: "nat \<Rightarrow> state \<Rightarrow> ub + state" where
  "shared_ownership2 s_ptr s =
     ub_bind (print_took s_ptr s)
       (\<lambda>s1. shared_ptr_dtor s_ptr (print_use_count s_ptr s1))"

definition shared_ownership :: "nat \<Rightarrow> state \<Rightarrow> ub + state" where
  "shared_ownership s_ptr s =
     ub_bind (print_took s_ptr s)
       (\<lambda>s1. ub_bind (shared_ownership2 s_ptr (shared_ptr_copy s_ptr (print_use_count s_ptr s1)))
         (\<lambda>s2. shared_ptr_dtor s_ptr (print_use_count s_ptr s2)))"

subsection \<open>The script of the ownership demonstration\<close>

text \<open>\<^verbatim>\<open>vector::operator[]\<close> does not check its index.\<close>

definition at :: "'a list \<Rightarrow> nat \<Rightarrow> ub + 'a" where
  "at xs i = (if i < length xs then Inr (xs ! i) else Inl OutOfBounds)"

text \<open>
  The two collections: four \<^verbatim>\<open>push_back\<close>s of fresh unique pointers into \<^verbatim>\<open>vua\<close>,
  then the four raw pointers of \<^verbatim>\<open>vpa\<close>.
\<close>

definition ownership_setup :: "state \<Rightarrow> addr option list \<times> addr list \<times> state" where
  "ownership_setup s0 =
     (let vua = [];
          (p, s1) = make_unique_B 3 s0; vua = vua @ [p];
          (p, s2) = make_unique_B 4 s1; vua = vua @ [p];
          (p, s3) = make_unique_C 5 s2; vua = vua @ [p];
          (p, s4) = make_unique_C 6 s3; vua = vua @ [p];
          (q1, s5) = new_B 1 s4;
          (q2, s6) = new_B 2 s5;
          (q3, s7) = new_C 7 s6;
          (q4, s8) = new_C 8 s7;
          vpa = [q1, q2, q3, q4]
      in (vua, vpa, s8))"

text \<open>\<^verbatim>\<open>for (auto&& ap : vua) ap->foo();\<close> and \<^verbatim>\<open>for (auto ap : vpa) ap->foo();\<close>\<close>

fun foo_each_unique :: "addr option list \<Rightarrow> state \<Rightarrow> ub + state" where
  "foo_each_unique [] s = Inr s"
| "foo_each_unique (ap # aps) s =
     (case ap of
        None \<Rightarrow> Inl NullDereference
      | Some a \<Rightarrow> ub_bind (call_foo a s) (foo_each_unique aps))"

fun foo_each_raw :: "addr list \<Rightarrow> state \<Rightarrow> ub + state" where
  "foo_each_raw [] s = Inr s"
| "foo_each_raw (ap # aps) s = ub_bind (call_foo ap s) (foo_each_raw aps)"

text \<open>
  The two hand-offs. \<^verbatim>\<open>std::move(vua[1])\<close> initialises the parameter from the slot and
  leaves the slot null; \<^verbatim>\<open>vua[2].release()\<close> returns the slot's pointer and leaves the
  slot null. The shared pointer built from the released pointer is a temporary: the
  parameter of \<^verbatim>\<open>shared_ownership\<close> is initialised from it without a copy.
\<close>

definition ownership_handoffs :: "addr option list \<Rightarrow> state \<Rightarrow> ub + (addr option list \<times> state)" where
  "ownership_handoffs vua s =
     ub_bind (at vua 1) (\<lambda>u_ptr.
       let vua1 = vua[1 := None] in
       ub_bind (takes_ownership u_ptr s) (\<lambda>s1.
         ub_bind (at vua1 2) (\<lambda>raw.
           let vua2 = vua1[2 := None];
               (s_ptr, s2) = shared_ptr_from_raw raw s1
           in ub_bind (shared_ownership s_ptr s2) (\<lambda>s3. Inr (vua2, s3)))))"

text \<open>The last loop over \<^verbatim>\<open>vua\<close>, which tells a null slot from a live one.\<close>

fun report_each :: "addr option list \<Rightarrow> state \<Rightarrow> ub + state" where
  "report_each [] s = Inr s"
| "report_each (ap # aps) s =
     (case ap of
        None \<Rightarrow> report_each aps (s\<lparr>cout := cout s @ ''The ownership has moved away!'' @ [nl]\<rparr>)
      | Some a \<Rightarrow> ub_bind (call_foo a s) (report_each aps))"

text \<open>
  The ownership part of \<^verbatim>\<open>main\<close> up to the hand-offs, and the whole of it. The
  result holds the two collections as the last loop leaves them.
\<close>

definition ownership_until_handoffs :: "state \<Rightarrow> ub + (addr option list \<times> addr list \<times> state)" where
  "ownership_until_handoffs s0 =
     (let (vua, vpa, s1) = ownership_setup s0 in
      ub_bind (foo_each_unique vua s1) (\<lambda>s2.
        ub_bind (foo_each_raw vpa s2) (\<lambda>s3.
          ub_bind (ownership_handoffs vua s3) (\<lambda>(vua', s4). Inr (vua', vpa, s4)))))"

definition ownership_demo :: "state \<Rightarrow> ub + (addr option list \<times> addr list \<times> state)" where
  "ownership_demo s0 =
     ub_bind (ownership_until_handoffs s0) (\<lambda>(vua, vpa, s1).
       ub_bind (report_each vua s1) (\<lambda>s2. Inr (vua, vpa, s2)))"

text \<open>
  At the end of \<^verbatim>\<open>main\<close> the vector \<^verbatim>\<open>vua\<close> destroys its unique pointers; the raw
  pointers of \<^verbatim>\<open>vpa\<close> are dropped without a \<^verbatim>\<open>delete\<close>. \<open>ownership_run\<close> is the
  ownership part of \<^verbatim>\<open>main\<close> with this ending; in \<^verbatim>\<open>main\<close> the closure gallery
  prints its lines between the last loop and the ending.
\<close>

fun vector_unique_dtor :: "addr option list \<Rightarrow> state \<Rightarrow> ub + state" where
  "vector_unique_dtor [] s = Inr s"
| "vector_unique_dtor (p # ps) s = ub_bind (unique_ptr_dtor p s) (vector_unique_dtor ps)"

definition ownership_run :: "state \<Rightarrow> ub + state" where
  "ownership_run s0 =
     ub_bind (ownership_demo s0) (\<lambda>(vua, vpa, s1). vector_unique_dtor vua s1)"

text \<open>
  A start state for running the script: nothing allocated, nothing printed, addresses
  handed out from \<open>a0\<close> on.
\<close>

definition start_state :: "addr \<Rightarrow> state" where
  "start_state a0 =
     \<lparr>heap = Map.empty, next_addr = a0, blocks = Map.empty, next_block = 0, cout = []\<rparr>"

text \<open>
  A state that holds one \<^verbatim>\<open>B\<close>, at address 4096, owned by one shared pointer, the
  control block 0.
\<close>

definition one_shared_B :: state where
  "one_shared_B =
     snd (shared_ptr_from_raw (Some 4096) (snd (new_B 3 (start_state 4096))))"

section \<open>Unit 4: the closure gallery\<close>

text \<open>
  The first lambda holds a reference to \<^verbatim>\<open>greet\<close> and reads it when called, so the
  model takes the value \<^verbatim>\<open>greet\<close> has at the call. The second holds a copy of
  \<^verbatim>\<open>secret\<close> and writes to a string stream of its own. \<^verbatim>\<open>Adder<std::string>\<close> holds
  its field \<^verbatim>\<open>y\<close>; \<^verbatim>\<open>+\<close> on strings is concatenation.
\<close>

definition lambda_foo :: "string \<Rightarrow> string \<Rightarrow> string" where
  "lambda_foo greet name = greet @ name"

definition lambda_bar :: "cint \<Rightarrow> string \<Rightarrow> string" where
  "lambda_bar secret name =
     (let oss = [];
          oss = oss @ name @ ''got the secret ('' @ show_int (sint secret) @ '')''
      in oss)"

definition Adder_call :: "string \<Rightarrow> string \<Rightarrow> string" where
  "Adder_call y t = y @ t"

text \<open>
  \<^verbatim>\<open>for (auto f : fv) { sv.push_back(f(john)); std::cout << "a\n"; }\<close> and
  \<^verbatim>\<open>for (auto s : sv) std::cout << s << '\n';\<close>
\<close>

fun call_each :: "(string \<Rightarrow> string) list \<Rightarrow> string \<Rightarrow> string list \<Rightarrow> ostream \<Rightarrow> string list \<times> ostream" where
  "call_each [] john sv os = (sv, os)"
| "call_each (f # fv) john sv os = call_each fv john (sv @ [f john]) (os @ ''a'' @ [nl])"

fun print_each :: "string list \<Rightarrow> ostream \<Rightarrow> ostream" where
  "print_each [] os = os"
| "print_each (s # sv) os = print_each sv (os @ s @ [nl])"

definition closure_gallery :: "ostream \<Rightarrow> string list \<times> ostream" where
  "closure_gallery os =
     (let greet = ''Hello, '';
          secret = 42;
          baz = ''Bye, '';
          fv = [];
          fv = fv @ [lambda_foo greet];
          fv = fv @ [lambda_bar secret];
          fv = fv @ [Adder_call baz];
          john = ''John Doe'';
          (sv, os1) = call_each fv john [] os
      in (sv, print_each sv os1))"

section \<open>Reading the output\<close>

text \<open>
  The output as lines: \<open>unlines\<close> ends every line with \<open>nl\<close>, \<open>split_lines\<close> cuts
  the output at every \<open>nl\<close>, and \<open>lines_with p\<close> keeps the lines that start with \<open>p\<close>.
\<close>

definition unlines :: "string list \<Rightarrow> string" where
  "unlines ls = concat (map (\<lambda>l. l @ [nl]) ls)"

fun split_lines :: "string \<Rightarrow> string list" where
  "split_lines [] = []"
| "split_lines (c # cs) =
     (if c = nl then [] # split_lines cs
      else (case split_lines cs of [] \<Rightarrow> [[c]] | l # ls \<Rightarrow> (c # l) # ls))"

definition lines_with :: "string \<Rightarrow> ostream \<Rightarrow> string list" where
  "lines_with p os = filter (\<lambda>l. take (length p) l = p) (split_lines os)"

text \<open>The output of a run, or the undefined behaviour it ran into.\<close>

definition output_of :: "ub + state \<Rightarrow> ub + ostream" where
  "output_of r = (case r of Inl e \<Rightarrow> Inl e | Inr s \<Rightarrow> Inr (cout s))"

definition lines_in :: "string \<Rightarrow> ub + ostream \<Rightarrow> ub + string list" where
  "lines_in p r = (case r of Inl e \<Rightarrow> Inl e | Inr os \<Rightarrow> Inr (lines_with p os))"

text \<open>
  The slots of \<^verbatim>\<open>vua\<close> as the two hand-offs leave them, and what the last loop over
  \<^verbatim>\<open>vua\<close> prints, taken apart from what was printed before it.
\<close>

definition handoff_slots :: "state \<Rightarrow> ub + addr option list" where
  "handoff_slots s0 = ub_bind (ownership_until_handoffs s0) (\<lambda>(vua, vpa, s). Inr vua)"

definition last_loop_output :: "state \<Rightarrow> ub + ostream" where
  "last_loop_output s0 =
     ub_bind (ownership_until_handoffs s0)
       (\<lambda>(vua, vpa, s). output_of (report_each vua (s\<lparr>cout := []\<rparr>)))"

text \<open>A listing of texts separated by a comma and a space.\<close>

fun comma_sep :: "string list \<Rightarrow> string" where
  "comma_sep [] = []"
| "comma_sep [x] = x"
| "comma_sep (x # y # ys) = x @ '', '' @ comma_sep (y # ys)"

section \<open>Properties of the validator\<close>

text \<open>
  Claim C6. Whatever token the validator reads, it appends exactly one line to the
  output: the token itself when its length is between 5 and 10, the text
  "Out of range" when it is longer than 10, the text "invalid argument" when it is
  shorter than 5 (the empty token of an absent input included). The try body throws
  exactly when the length is outside 5..10, so a token inside the range raises nothing.
\<close>

theorem validator_outcomes:
  "validator s os =
     os @ (if 10 < length s then ''Out of range''
           else if length s < 5 then ''invalid argument''
           else s) @ [nl]
   \<and> (isl (try_body s os) \<longleftrightarrow> \<not> (5 \<le> length s \<and> length s \<le> 10))
   \<and> validator (cin_token []) os = os @ ''invalid argument'' @ [nl]"
  by (auto simp: validator_def try_body_def cin_token_def)

section \<open>Properties of the vector\<close>

lemma std_copy_all: "length src = length dst \<Longrightarrow> std_copy src dst = src"
  by (simp add: std_copy_def)

lemma Vec_copy_same: "Vec_copy raw v = v"
  by (simp add: Vec_copy_def std_copy_all)

text \<open>
  Claim C5. Building a \<^verbatim>\<open>Vec<T, N>\<close> from an initializer list fails exactly when the
  list's length is not \<open>N\<close>, with the message "Wrong number of arguments!"; otherwise
  the vector holds the listed elements in their order, whatever the array held before.
\<close>

theorem Vec_init_spec:
  "(isl (Vec_init N raw il) \<longleftrightarrow> length il \<noteq> N)
   \<and> Vec_init N raw il =
       (if length il \<noteq> N then Inl (invalid_argument ''Wrong number of arguments!'')
        else Inr il)
   \<and> what (invalid_argument ''Wrong number of arguments!'') = ''Wrong number of arguments!''"
  by (simp add: Vec_init_def std_copy_all)

text \<open>
  The addition loop keeps the length of the result, and after it every index from the
  loop's start on holds the sum; the product loop likewise.
\<close>

lemma add_loop_length: "length (add_loop i M data v result) = length result"
proof (induction i M data v result rule: add_loop.induct)
  case (1 i M data v result)
  then show ?case
    by (subst add_loop.simps) simp
qed

lemma add_loop_nth:
  "length result = M \<Longrightarrow> j < M \<Longrightarrow>
   add_loop i M data v result ! j = (if i \<le> j then data ! j + v ! j else result ! j)"
proof (induction i M data v result rule: add_loop.induct)
  case (1 i M data v result)
  show ?case
  proof (cases "i < M")
    case True
    have "add_loop i M data v result ! j =
          add_loop (i + 1) M data v (result[i := data ! i + v ! i]) ! j"
      using True by (subst add_loop.simps) simp
    also have "\<dots> = (if i + 1 \<le> j then data ! j + v ! j
                     else (result[i := data ! i + v ! i]) ! j)"
      using "1.IH" [OF True] "1.prems" by simp
    also have "\<dots> = (if i \<le> j then data ! j + v ! j else result ! j)"
      using "1.prems" True by (cases "i = j") auto
    finally show ?thesis .
  next
    case False
    with "1.prems" show ?thesis
      by (subst add_loop.simps) simp
  qed
qed

lemma mul_loop_length: "length (mul_loop i M data v result) = length result"
proof (induction i M data v result rule: mul_loop.induct)
  case (1 i M data v result)
  then show ?case
    by (subst mul_loop.simps) simp
qed

lemma mul_loop_nth:
  "length result = M \<Longrightarrow> j < M \<Longrightarrow>
   mul_loop i M data v result ! j = (if i \<le> j then data ! j * v ! j else result ! j)"
proof (induction i M data v result rule: mul_loop.induct)
  case (1 i M data v result)
  show ?case
  proof (cases "i < M")
    case True
    have "mul_loop i M data v result ! j =
          mul_loop (i + 1) M data v (result[i := data ! i * v ! i]) ! j"
      using True by (subst mul_loop.simps) simp
    also have "\<dots> = (if i + 1 \<le> j then data ! j * v ! j
                     else (result[i := data ! i * v ! i]) ! j)"
      using "1.IH" [OF True] "1.prems" by simp
    also have "\<dots> = (if i \<le> j then data ! j * v ! j else result ! j)"
      using "1.prems" True by (cases "i = j") auto
    finally show ?thesis .
  next
    case False
    with "1.prems" show ?thesis
      by (subst mul_loop.simps) simp
  qed
qed

lemma Vec_add_same_size:
  fixes a b :: "'a::{zero,plus} list"
  assumes "length a = length b"
  shows "\<exists>r. Vec_add a b = Inr r \<and> length r = length b \<and> (\<forall>i<length b. r ! i = a ! i + b ! i)"
proof -
  let ?r = "add_loop 0 (length b) a b (Vec_default (length b))"
  have "Vec_add a b = Inr ?r"
    using assms by (simp add: Vec_add_def Let_def)
  moreover have "length ?r = length b"
    by (simp add: add_loop_length Vec_default_def)
  moreover have "\<forall>i<length b. ?r ! i = a ! i + b ! i"
    by (simp add: add_loop_nth Vec_default_def)
  ultimately show ?thesis
    by blast
qed

lemma Vec_mul_same_size:
  fixes a b :: "'a::{zero,times} list"
  assumes "length a = length b"
  shows "\<exists>r. Vec_mul a b = Inr r \<and> length r = length b \<and> (\<forall>i<length b. r ! i = a ! i * b ! i)"
proof -
  let ?r = "mul_loop 0 (length b) a b (Vec_default (length b))"
  have "Vec_mul a b = Inr ?r"
    using assms by (simp add: Vec_mul_def Let_def)
  moreover have "length ?r = length b"
    by (simp add: mul_loop_length Vec_default_def)
  moreover have "\<forall>i<length b. ?r ! i = a ! i * b ! i"
    by (simp add: mul_loop_nth Vec_default_def)
  ultimately show ?thesis
    by blast
qed

text \<open>
  Claim C4. For vectors \<open>a\<close> of size \<open>N\<close> and \<open>b\<close> of size \<open>M\<close>, addition and
  multiplication fail exactly when \<open>N \<noteq> M\<close>, with the message
  "Vector size mismatch!" and no result; when \<open>N = M\<close> the result has that size and
  its element at every index \<open>i\<close> is \<open>a[i] + b[i]\<close>, respectively \<open>a[i] * b[i]\<close>:
  multiplication is element-wise and yields a vector, not a scalar.
\<close>

theorem Vec_add_mul_spec:
  fixes a b :: "'a::{zero,plus,times} list"
  shows
  "(isl (Vec_add a b) \<longleftrightarrow> length a \<noteq> length b)
   \<and> (isl (Vec_mul a b) \<longleftrightarrow> length a \<noteq> length b)
   \<and> (length a \<noteq> length b \<longrightarrow>
        Vec_add a b = Inl (invalid_argument ''Vector size mismatch!'')
        \<and> Vec_mul a b = Inl (invalid_argument ''Vector size mismatch!''))
   \<and> (length a = length b \<longrightarrow>
        (\<exists>r. Vec_add a b = Inr r \<and> length r = length b
              \<and> (\<forall>i<length b. r ! i = a ! i + b ! i))
        \<and> (\<exists>r. Vec_mul a b = Inr r \<and> length r = length b
              \<and> (\<forall>i<length b. r ! i = a ! i * b ! i)))"
proof (cases "length a = length b")
  case True
  from Vec_add_same_size [OF True] Vec_mul_same_size [OF True] True
  show ?thesis
    by auto
next
  case False
  then show ?thesis
    by (simp add: Vec_add_def Vec_mul_def)
qed

theorem Vec_add_mul_spec_witness:
  "length [1, 2, 3 :: int] = length [4, 5, 6 :: int]
   \<and> (\<exists>r. Vec_add [1, 2, 3 :: int] [4, 5, 6] = Inr r \<and> r ! 0 = 5 \<and> r ! 1 = 7 \<and> r ! 2 = 9)
   \<and> (\<exists>r. Vec_mul [1, 2, 3 :: int] [4, 5, 6] = Inr r \<and> r ! 0 = 4 \<and> r ! 1 = 10 \<and> r ! 2 = 18)
   \<and> length [1, 2, 3 :: int] \<noteq> length [1, 2, 3, 4 :: int]
   \<and> Vec_add [1, 2, 3 :: int] [1, 2, 3, 4] = Inl (invalid_argument ''Vector size mismatch!'')
   \<and> Vec_mul [1, 2, 3 :: int] [1, 2, 3, 4] = Inl (invalid_argument ''Vector size mismatch!'')"
proof -
  have same: "length [1, 2, 3 :: int] = length [4, 5, 6 :: int]"
    by simp
  have differ: "length [1, 2, 3 :: int] \<noteq> length [1, 2, 3, 4 :: int]"
    by simp
  from Vec_add_mul_spec [of "[1, 2, 3 :: int]" "[4, 5, 6]"] same
  obtain r r' where
    add: "Vec_add [1, 2, 3 :: int] [4, 5, 6] = Inr r" "\<forall>i<3. r ! i = [1, 2, 3] ! i + [4, 5, 6] ! i"
    and mul: "Vec_mul [1, 2, 3 :: int] [4, 5, 6] = Inr r'" "\<forall>i<3. r' ! i = [1, 2, 3] ! i * [4, 5, 6] ! i"
    by auto
  from add(2) [rule_format, of 0] add(2) [rule_format, of 1] add(2) [rule_format, of 2]
  have "r ! 0 = 5 \<and> r ! 1 = 7 \<and> r ! 2 = 9"
    by simp
  moreover
  from mul(2) [rule_format, of 0] mul(2) [rule_format, of 1] mul(2) [rule_format, of 2]
  have "r' ! 0 = 4 \<and> r' ! 1 = 10 \<and> r' ! 2 = 18"
    by simp
  moreover from Vec_add_mul_spec [of "[1, 2, 3 :: int]" "[1, 2, 3, 4]"] differ
  have "Vec_add [1, 2, 3 :: int] [1, 2, 3, 4] = Inl (invalid_argument ''Vector size mismatch!'')
      \<and> Vec_mul [1, 2, 3 :: int] [1, 2, 3, 4] = Inl (invalid_argument ''Vector size mismatch!'')"
    by blast
  ultimately show ?thesis
    using add(1) mul(1) by simp
qed

text \<open>
  The rendering loop appends one element and one separator per index; a listing of a
  non-empty sequence is the separated leading elements followed by the last one.
\<close>

lemma render_loop_result:
  "render_loop sh i n data os = os @ concat (map (\<lambda>k. sh (data ! k) @ '', '') [i..<n])"
proof (induction sh i n data os rule: render_loop.induct)
  case (1 sh i n data os)
  show ?case
  proof (cases "i < n")
    case True
    then have "[i..<n] = i # [i + 1..<n]"
      by (simp add: upt_conv_Cons)
    with True "1.IH" show ?thesis
      by (subst render_loop.simps) simp
  next
    case False
    then show ?thesis
      by (subst render_loop.simps) simp
  qed
qed

lemma comma_sep_last:
  "xs \<noteq> [] \<Longrightarrow> comma_sep xs = concat (map (\<lambda>x. x @ '', '') (butlast xs)) @ last xs"
  by (induction xs rule: comma_sep.induct) simp_all

lemma leading_elements:
  "map (\<lambda>k. sh (v ! k) @ '', '') [0..<length v - Suc 0] = map (\<lambda>x. x @ '', '') (butlast (map sh v))"
  by (rule nth_equalityI) (simp_all add: nth_butlast)

lemma Vec_insert_text:
  assumes "v \<noteq> []"
  shows "fst (Vec_insert sh os v) = os @ ''['' @ comma_sep (map sh v) @ '']''"
proof -
  from assms have "last (map sh v) = sh (v ! (length v - 1))"
    by (simp add: last_map last_conv_nth)
  with assms show ?thesis
    by (simp add: Vec_insert_def Let_def render_loop_result leading_elements comma_sep_last)
qed

text \<open>
  Claim C8. For a vector of at least one element the inserter writes the bracketed,
  comma-separated listing of all elements in index order. It does not return the stream:
  control reaches the end of the function, declared to return \<^verbatim>\<open>std::ostream&\<close>,
  without a return statement, for every vector, so there is nothing to chain on. The
  vector \<open>[1, 2, 3]\<close> is written as "[1, 2, 3]" and no stream comes back, whereas the
  inserter of \<^verbatim>\<open>A\<close> returns the stream it wrote to.
\<close>

theorem Vec_insert_returns_no_stream:
  "isl (snd (Vec_insert sh os v))
   \<and> fst (Vec_insert sh os v) =
       (if v = [] then os @ ''['' else os @ ''['' @ comma_sep (map sh v) @ '']'')
   \<and> Vec_insert show_int [] [1, 2, 3] = (''[1, 2, 3]'', Inl MissingReturn)
   \<and> snd (A_insert os a) = Inr (fst (A_insert os a))"
proof -
  have "isl (snd (Vec_insert sh os v))"
    by (simp add: Vec_insert_def Let_def)
  moreover have "fst (Vec_insert sh os v) =
      (if v = [] then os @ ''['' else os @ ''['' @ comma_sep (map sh v) @ '']'')"
    by (simp add: Vec_insert_text) (simp add: Vec_insert_def)
  moreover have "Vec_insert show_int [] [1, 2, 3] = (''[1, 2, 3]'', Inl MissingReturn)"
    by (simp add: Vec_insert_def Let_def render_loop.simps show_int_def show_nat.simps
        digit_char_def)
  moreover have "snd (A_insert os a) = Inr (fst (A_insert os a))"
    by (simp add: A_insert_def Let_def)
  ultimately show ?thesis
    by blast
qed

text \<open>
  The three literals as \<^verbatim>\<open>float\<close> values, their products and the sums, each rounded as
  the hardware rounds it, and the text of the three sums.
\<close>

lemma Vec_init_same_length: "length il = N \<Longrightarrow> Vec_init N raw il = Inr il"
  by (simp add: Vec_init_def std_copy_all)

lemma float_literals:
  "float_literal 1 10 = Finite 13421773 (- 27)"
  "float_literal 2 10 = Finite 13421773 (- 26)"
  "float_literal 3 10 = Finite 10066330 (- 25)"
  by code_simp+

lemma float_products:
  "Vec_mul [Finite 13421773 (- 27), Finite 13421773 (- 26), Finite 10066330 (- 25)]
           [Finite 13421773 (- 27), Finite 13421773 (- 26), Finite 10066330 (- 25)] =
     Inr [Finite 10737419 (- 30), Finite 10737419 (- 28), Finite 12079596 (- 27)]"
  by code_simp

lemma float_sums:
  "Vec_add [Finite 10737419 (- 30), Finite 10737419 (- 28), Finite 12079596 (- 27)]
           [Finite 13421773 (- 27), Finite 13421773 (- 26), Finite 10066330 (- 25)] =
     Inr [Finite 14763950 (- 27), Finite 16106128 (- 26), Finite 13086229 (- 25)]"
  by code_simp

lemma float_texts:
  "show_float (Finite 14763950 (- 27)) = ''0.11''"
  "show_float (Finite 16106128 (- 26)) = ''0.24''"
  "show_float (Finite 13086229 (- 25)) = ''0.39''"
  by (simp_all add: show_float_def scaled_def show_g6_def floor_log_def ilog.simps Let_def
      with_fraction_def strip_zeros_def show_int_def show_nat.simps digit_char_def)

text \<open>
  Claim C9. The scenario \<^verbatim>\<open>Vec<float,3>{0.1,0.2,0.3} * Vec<float,3>{0.1,0.2,0.3} +
  Vec<float,3>{0.1,0.2,0.3}\<close>, computed element by element in single precision, is
  written to the stream exactly as "[0.11, 0.24, 0.39]", whatever the stream and the
  vectors' storage held before. (The inserter then hands no stream back, for this vector
  as for every other.)
\<close>

theorem vec_scenario_renders:
  "vec_scenario raw os = Inr (os @ ''[0.11, 0.24, 0.39]'', Inl MissingReturn)"
proof -
  let ?r = "[Finite 14763950 (- 27), Finite 16106128 (- 26), Finite 13086229 (- 25)]"
  have computed: "vec_scenario raw os = Inr (Vec_insert show_float os ?r)"
    by (simp add: vec_scenario_def exn_bind_def Vec_init_same_length float_literals
        float_products float_sums)
  have "fst (Vec_insert show_float os ?r) = os @ ''[0.11, 0.24, 0.39]''"
    by (simp add: Vec_insert_text float_texts)
  moreover have "snd (Vec_insert show_float os ?r) = Inl MissingReturn"
    by (simp add: Vec_insert_def Let_def)
  ultimately have "Vec_insert show_float os ?r = (os @ ''[0.11, 0.24, 0.39]'', Inl MissingReturn)"
    by (simp add: prod_eq_iff)
  with computed show ?thesis
    by simp
qed

section \<open>Properties of the closure gallery\<close>

text \<open>
  The collecting loop appends the result of every callable in the order of the gallery
  and prints one marker line per call; the printing loop prints the collected texts in
  their order.
\<close>

lemma call_each_result:
  "call_each fv john sv os =
     (sv @ map (\<lambda>f. f john) fv, os @ concat (replicate (length fv) (''a'' @ [nl])))"
  by (induction fv arbitrary: sv os) (simp_all add: replicate_app_Cons_same)

lemma print_each_result: "print_each sv os = os @ unlines sv"
  by (induction sv arbitrary: os) (simp_all add: unlines_def)

text \<open>
  Claim C7. With the prefix "Hello, " captured by reference, the secret 42 captured by
  value and the callable object's prefix "Bye, ", calling the three callables in insertion
  order on "John Doe" yields "Hello, John Doe", "John Doegot the secret (42)" and
  "Bye, John Doe", in that order, and these texts are printed in the same order, after the
  three marker lines of the collecting loop.
\<close>

theorem closure_gallery_outputs:
  "closure_gallery os =
     ([''Hello, John Doe'', ''John Doegot the secret (42)'', ''Bye, John Doe''],
      os @ unlines [''a'', ''a'', ''a'',
                    ''Hello, John Doe'', ''John Doegot the secret (42)'', ''Bye, John Doe''])"
proof -
  have rendered: "show_int 42 = ''42''"
    by (simp add: show_int_def show_nat.simps digit_char_def)
  have secret: "sint (42 :: cint) = 42"
    by simp
  show ?thesis
    by (simp add: closure_gallery_def call_each_result print_each_result lambda_foo_def
        lambda_bar_def Adder_call_def secret rendered unlines_def Let_def)
qed

section \<open>Properties of the ownership demonstration\<close>

lemma ub_bind_Inr [simp]: "ub_bind (Inr v) f = f v"
  by (simp add: ub_bind_def)

lemma ub_bind_Inl [simp]: "ub_bind (Inl e) f = Inl e"
  by (simp add: ub_bind_def)

lemma show_int_1 [simp]: "show_int 1 = ''1''"
  by (simp add: show_int_def show_nat.simps digit_char_def)

lemma show_int_2 [simp]: "show_int 2 = ''2''"
  by (simp add: show_int_def show_nat.simps digit_char_def)

lemma call_foo_live:
  "heap s a = Some obj \<Longrightarrow> call_foo a s = Inr (s\<lparr>cout := foo obj (cout s)\<rparr>)"
  by (simp add: call_foo_def)

lemma delete_A_live:
  "heap s a = Some obj \<Longrightarrow>
   delete_A a s = Inr (s\<lparr>cout := cout s @ ''~A()'' @ [nl], heap := (heap s)(a := None)\<rparr>)"
  by (simp add: delete_A_def A_dtor_virtual_def A_dtor_def)

lemma takes_ownership_live:
  "heap s a = Some obj \<Longrightarrow>
   takes_ownership (Some a) s =
     Inr (s\<lparr>cout := cout s @ ''Took ownership of: ('' @ show_ptr a @ '')'' @ [nl] @ ''~A()'' @ [nl],
            heap := (heap s)(a := None)\<rparr>)"
  by (simp add: takes_ownership_def A_insert_def unique_ptr_dtor_def delete_A_live Let_def)

lemma print_took_live:
  "blocks s b = Some cb \<Longrightarrow> managed cb = Some a \<Longrightarrow>
   print_took b s = Inr (s\<lparr>cout := cout s @ ''Took ownership of: ('' @ show_ptr a @ '')'' @ [nl]\<rparr>)"
  by (simp add: print_took_def shared_ptr_get_def A_insert_def Let_def)

lemma shared_ownership2_live:
  assumes "blocks s b = Some cb" and "managed cb = Some a" and "1 < uses cb"
  shows "shared_ownership2 b s =
     Inr (s\<lparr>cout := cout s @ unlines
              [''Took ownership of: ('' @ show_ptr a @ '')'',
               ''use_count: '' @ show_int (int (uses cb))],
            blocks := (blocks s)(b \<mapsto> cb\<lparr>uses := uses cb - 1\<rparr>)\<rparr>)"
  using assms
  by (simp add: shared_ownership2_def print_took_live print_use_count_def use_count_def
      shared_ptr_dtor_def unlines_def)

lemma shared_ownership_live:
  assumes "blocks s b = Some cb" and "managed cb = Some a" and "0 < uses cb"
    and "heap s a = Some obj"
  shows "shared_ownership b s =
     Inr (if uses cb = 1
          then s\<lparr>cout := cout s @ unlines
                   [''Took ownership of: ('' @ show_ptr a @ '')'',
                    ''use_count: '' @ show_int (int (uses cb)),
                    ''Took ownership of: ('' @ show_ptr a @ '')'',
                    ''use_count: '' @ show_int (int (uses cb + 1)),
                    ''use_count: '' @ show_int (int (uses cb)),
                    ''~A()''],
                 heap := (heap s)(a := None),
                 blocks := (blocks s)(b := None)\<rparr>
          else s\<lparr>cout := cout s @ unlines
                   [''Took ownership of: ('' @ show_ptr a @ '')'',
                    ''use_count: '' @ show_int (int (uses cb)),
                    ''Took ownership of: ('' @ show_ptr a @ '')'',
                    ''use_count: '' @ show_int (int (uses cb + 1)),
                    ''use_count: '' @ show_int (int (uses cb))],
                 blocks := (blocks s)(b \<mapsto> cb\<lparr>uses := uses cb - 1\<rparr>)\<rparr>)"
proof -
  let ?s1 = "s\<lparr>cout := cout s @ unlines [''Took ownership of: ('' @ show_ptr a @ '')'']\<rparr>"
  let ?s2 = "shared_ptr_copy b (print_use_count b ?s1)"
  have took: "print_took b s = Inr ?s1"
    using assms(1,2) by (simp add: print_took_live unlines_def)
  have copied: "blocks ?s2 b = Some (cb\<lparr>uses := uses cb + 1\<rparr>)"
    using assms(1) by (simp add: shared_ptr_copy_def print_use_count_def)
  let ?s3 = "?s2\<lparr>cout := cout ?s2 @ unlines
              [''Took ownership of: ('' @ show_ptr a @ '')'',
               ''use_count: '' @ show_int (int (uses cb + 1))],
            blocks := (blocks ?s2)(b \<mapsto> cb)\<rparr>"
  have inner: "shared_ownership2 b ?s2 = Inr ?s3"
    using shared_ownership2_live [OF copied] assms(2,3) by simp
  have "shared_ownership b s =
      ub_bind (shared_ownership2 b ?s2) (\<lambda>s2. shared_ptr_dtor b (print_use_count b s2))"
    by (simp add: shared_ownership_def took)
  also have "\<dots> = shared_ptr_dtor b (print_use_count b ?s3)"
    by (simp only: inner ub_bind_Inr)
  finally show ?thesis
    using assms
    by (simp add: print_use_count_def use_count_def shared_ptr_copy_def shared_ptr_dtor_def
        delete_A_live unlines_def)
qed

lemma ownership_setup_result:
  "ownership_setup s =
     ([Some (next_addr s), Some (next_addr s + 1), Some (next_addr s + 2), Some (next_addr s + 3)],
      [next_addr s + 4, next_addr s + 5, next_addr s + 6, next_addr s + 7],
      s\<lparr>heap := (heap s)
            (next_addr s \<mapsto> B 3, next_addr s + 1 \<mapsto> B 4,
             next_addr s + 2 \<mapsto> C (Inl IndeterminateValue),
             next_addr s + 3 \<mapsto> C (Inl IndeterminateValue),
             next_addr s + 4 \<mapsto> B 1, next_addr s + 5 \<mapsto> B 2,
             next_addr s + 6 \<mapsto> C (Inl IndeterminateValue),
             next_addr s + 7 \<mapsto> C (Inl IndeterminateValue)),
          next_addr := next_addr s + 8\<rparr>)"
  by (simp add: ownership_setup_def new_B_def new_C_def make_unique_B_def make_unique_C_def
      B_ctor_def C_ctor_def Let_def eval_nat_numeral)

lemma until_handoffs_result:
  "ownership_until_handoffs (start_state a0) =
     Inr ([Some a0, None, None, Some (a0 + 3)], [a0 + 4, a0 + 5, a0 + 6, a0 + 7],
       \<lparr>heap = [a0 \<mapsto> B 3, a0 + 3 \<mapsto> C (Inl IndeterminateValue), a0 + 4 \<mapsto> B 1, a0 + 5 \<mapsto> B 2,
                a0 + 6 \<mapsto> C (Inl IndeterminateValue), a0 + 7 \<mapsto> C (Inl IndeterminateValue)],
        next_addr = a0 + 8, blocks = Map.empty, next_block = 1,
        cout = unlines
          [''B.foo()'', ''B.foo()'', ''C.foo()'', ''C.foo()'',
           ''B.foo()'', ''B.foo()'', ''C.foo()'', ''C.foo()'',
           ''Took ownership of: ('' @ show_ptr (a0 + 1) @ '')'',
           ''~A()'',
           ''Took ownership of: ('' @ show_ptr (a0 + 2) @ '')'',
           ''use_count: 1'',
           ''Took ownership of: ('' @ show_ptr (a0 + 2) @ '')'',
           ''use_count: 2'',
           ''use_count: 1'',
           ''~A()'']\<rparr>)"
proof -
  let ?s = "start_state a0"
  have loops: "ownership_until_handoffs ?s =
      ub_bind (ownership_handoffs (fst (ownership_setup ?s))
                 (snd (snd (ownership_setup ?s))
                    \<lparr>cout := unlines [''B.foo()'', ''B.foo()'', ''C.foo()'', ''C.foo()'',
                                      ''B.foo()'', ''B.foo()'', ''C.foo()'', ''C.foo()'']\<rparr>))
        (\<lambda>(vua', s4). Inr (vua', fst (snd (ownership_setup ?s)), s4))"
    by (simp add: ownership_until_handoffs_def ownership_setup_result start_state_def call_foo_live unlines_def)
  show ?thesis
    unfolding loops
    by (simp add: ownership_setup_result start_state_def ownership_handoffs_def at_def takes_ownership_live
        shared_ownership_live shared_ptr_from_raw_def unlines_def eval_nat_numeral
        Let_def split_def)
qed


lemma split_lines_line:
  "nl \<notin> set l \<Longrightarrow> split_lines (l @ nl # rest) = l # split_lines rest"
  by (induction l) auto

lemma split_lines_unlines:
  "list_all (\<lambda>l. nl \<notin> set l) ls \<Longrightarrow> split_lines (unlines ls) = ls"
proof (induction ls)
  case Nil
  show ?case by (simp add: unlines_def)
next
  case (Cons l ls)
  have "unlines (l # ls) = l @ nl # unlines ls"
    by (simp add: unlines_def)
  with Cons show ?case
    by (simp add: split_lines_line)
qed

lemma hex_char_not_nl: "d < 16 \<Longrightarrow> nl \<noteq> hex_char d"
proof -
  assume "d < 16"
  then have "hex_char d \<in> set ''0123456789abcdef''"
    unfolding hex_char_def by (intro nth_mem) simp
  then show ?thesis
    by (auto simp: nl_def)
qed

lemma show_hex_no_nl: "nl \<notin> set (show_hex n)"
proof (induction n rule: show_hex.induct)
  case (1 n)
  show ?case
  proof (cases "n < 16")
    case True
    then show ?thesis
      by (subst show_hex.simps) (simp add: hex_char_not_nl)
  next
    case False
    with "1" show ?thesis
      by (subst show_hex.simps) (simp add: hex_char_not_nl)
  qed
qed

lemma show_ptr_no_nl: "nl \<notin> set (show_ptr a)"
  using show_hex_no_nl [of a] by (simp add: show_ptr_def nl_def)

lemma show_ptr_no_nl': "CHR 0x0A \<notin> set (show_ptr a)"
  using show_ptr_no_nl [of a] by (simp add: nl_def)

lemma ownership_run_output:
  "output_of (ownership_run (start_state a0)) =
     Inr (unlines
       [''B.foo()'', ''B.foo()'', ''C.foo()'', ''C.foo()'',
        ''B.foo()'', ''B.foo()'', ''C.foo()'', ''C.foo()'',
        ''Took ownership of: ('' @ show_ptr (a0 + 1) @ '')'',
        ''~A()'',
        ''Took ownership of: ('' @ show_ptr (a0 + 2) @ '')'',
        ''use_count: 1'',
        ''Took ownership of: ('' @ show_ptr (a0 + 2) @ '')'',
        ''use_count: 2'',
        ''use_count: 1'',
        ''~A()'',
        ''B.foo()'', ''The ownership has moved away!'', ''The ownership has moved away!'', ''C.foo()'',
        ''~A()'', ''~A()''])"
  by (simp add: ownership_run_def ownership_demo_def until_handoffs_result call_foo_live
      unique_ptr_dtor_def delete_A_live output_of_def unlines_def)


lemma last_loop_output_result:
  "last_loop_output (start_state a0) =
     Inr (unlines [''B.foo()'', ''The ownership has moved away!'',
                   ''The ownership has moved away!'', ''C.foo()''])"
  by (simp add: last_loop_output_def until_handoffs_result call_foo_live output_of_def
      unlines_def)

text \<open>
  Claim C1, as the code has it. The shared pointer built from the released third entry is
  a temporary, so the outer routine's parameter is that pointer itself and not a copy of
  it. Whatever addresses the allocations return, the share counts printed by the script
  are, in order: 1 inside the outer routine, 2 inside
  the nested routine, and 1 again in the outer routine after the nested call returns.
\<close>

theorem shared_counts_1_2_1:
  "lines_in ''use_count: '' (output_of (ownership_run (start_state a0))) =
     Inr [''use_count: 1'', ''use_count: 2'', ''use_count: 1'']"
  by (simp add: ownership_run_output lines_in_def lines_with_def split_lines_unlines
      show_ptr_no_nl' nl_def)

text \<open>
  Claim C1, as the specification states it (share counts 2, 3, 2), fails on the script run
  from the start state with addresses from 4096.
\<close>

theorem shared_counts_not_2_3_2:
  "lines_in ''use_count: '' (output_of (ownership_run (start_state 4096))) \<noteq>
     Inr [''use_count: 2'', ''use_count: 3'', ''use_count: 2'']"
  by (simp add: ownership_run_output lines_in_def lines_with_def split_lines_unlines
      show_ptr_no_nl' nl_def)

text \<open>
  Claim C2, as the code has it. After the transfer of index 1 and the release of index 2
  into the shared pointer, both slots are null: the collection is the first object, two
  empty slots and the fourth object, and the last loop reports indices 1 and 2 as
  "The ownership has moved away!" while indices 0 and 3 invoke their action.
\<close>

theorem last_loop_reports_two_empty_slots:
  "handoff_slots (start_state a0) = Inr [Some a0, None, None, Some (a0 + 3)]
   \<and> last_loop_output (start_state a0) =
       Inr (unlines [''B.foo()'', ''The ownership has moved away!'',
                     ''The ownership has moved away!'', ''C.foo()''])"
  by (simp add: handoff_slots_def until_handoffs_result last_loop_output_result)

text \<open>
  Claim C2, as the specification states it (only index 1 reported as emptied, indices 0, 2
  and 3 invoking their action), fails on the script: the third line of the last loop is
  not the action of index 2, and slot 2 is not live.
\<close>

theorem last_loop_index_2_not_live:
  "last_loop_output (start_state 4096) \<noteq>
     Inr (unlines [''B.foo()'', ''The ownership has moved away!'', ''C.foo()'', ''C.foo()''])
   \<and> handoff_slots (start_state 4096) \<noteq>
     Inr [Some 4096, None, Some 4098, Some 4099]"
  by (simp add: handoff_slots_def until_handoffs_result last_loop_output_result unlines_def)

text \<open>
  Claim C3. The claim has the field of every constructed \<^verbatim>\<open>C\<close> hold the type's default
  value. The constructor does not establish that: for every argument it leaves the field
  without a value, initialised from its own indeterminate content, so the field is neither
  the default value nor the argument. \<^verbatim>\<open>C(5)\<close> is such an object, and so are the
  objects that \<^verbatim>\<open>new C(5)\<close> puts on the heap, while the sibling \<^verbatim>\<open>B(5)\<close> stores 5.
\<close>

theorem C_ctor_leaves_field_indeterminate:
  "C_y (C_ctor x) = Inl IndeterminateValue
   \<and> C_y (C_ctor x) \<noteq> Inr 0
   \<and> C_y (C_ctor x) \<noteq> Inr x
   \<and> C_ctor 5 = C (Inl IndeterminateValue)
   \<and> heap (snd (new_C 5 (start_state 4096))) 4096 = Some (C (Inl IndeterminateValue))
   \<and> B_x (B_ctor x) = x"
  by (simp add: C_ctor_def B_ctor_def new_C_def start_state_def Let_def)

text \<open>
  Claim C10. The destructor of \<^verbatim>\<open>A\<close> is not virtual, so destroying a live object
  through a handle of the base type runs the base destructor only: a \<^verbatim>\<open>delete\<close>
  through \<^verbatim>\<open>A*\<close>, the exit of \<^verbatim>\<open>takes_ownership\<close>, the last release of a shared
  pointer and the destruction of an owning vector each print "~A()" and nothing else for
  the object. In the whole script the only lines that start with a tilde are four
  "~A()": "~B()" and "~C()" are never printed.
\<close>

theorem only_base_destructor_runs:
  assumes "heap s a = Some obj"
  shows
  "output_of (delete_A a s) = Inr (cout s @ ''~A()'' @ [nl])
   \<and> output_of (takes_ownership (Some a) s) =
       Inr (cout s @ ''Took ownership of: ('' @ show_ptr a @ '')'' @ [nl] @ ''~A()'' @ [nl])
   \<and> (blocks s b = Some \<lparr>managed = Some a, uses = 1\<rparr> \<longrightarrow>
        output_of (shared_ptr_dtor b s) = Inr (cout s @ ''~A()'' @ [nl]))
   \<and> output_of (vector_unique_dtor [Some a] s) = Inr (cout s @ ''~A()'' @ [nl])
   \<and> lines_in ''~'' (output_of (ownership_run (start_state a0))) =
       Inr [''~A()'', ''~A()'', ''~A()'', ''~A()'']"
proof -
  have "output_of (delete_A a s) = Inr (cout s @ ''~A()'' @ [nl])"
    using assms by (simp add: delete_A_live output_of_def)
  moreover have "output_of (takes_ownership (Some a) s) =
      Inr (cout s @ ''Took ownership of: ('' @ show_ptr a @ '')'' @ [nl] @ ''~A()'' @ [nl])"
    using assms by (simp add: takes_ownership_live output_of_def)
  moreover have "blocks s b = Some \<lparr>managed = Some a, uses = 1\<rparr> \<longrightarrow>
      output_of (shared_ptr_dtor b s) = Inr (cout s @ ''~A()'' @ [nl])"
    using assms by (simp add: shared_ptr_dtor_def delete_A_live output_of_def)
  moreover have "output_of (vector_unique_dtor [Some a] s) = Inr (cout s @ ''~A()'' @ [nl])"
    using assms by (simp add: unique_ptr_dtor_def delete_A_live output_of_def)
  moreover have "lines_in ''~'' (output_of (ownership_run (start_state a0))) =
      Inr [''~A()'', ''~A()'', ''~A()'', ''~A()'']"
    by (simp add: ownership_run_output lines_in_def lines_with_def split_lines_unlines
        show_ptr_no_nl' nl_def)
  ultimately show ?thesis
    by blast
qed

theorem only_base_destructor_runs_witness:
  "heap one_shared_B 4096 = Some (B 3)
   \<and> blocks one_shared_B 0 = Some \<lparr>managed = Some 4096, uses = 1\<rparr>
   \<and> output_of (delete_A 4096 one_shared_B) = Inr (''~A()'' @ [nl])
   \<and> output_of (takes_ownership (Some 4096) one_shared_B) =
       Inr (''Took ownership of: (0x1000)'' @ [nl] @ ''~A()'' @ [nl])
   \<and> output_of (shared_ptr_dtor 0 one_shared_B) = Inr (''~A()'' @ [nl])
   \<and> output_of (vector_unique_dtor [Some 4096] one_shared_B) = Inr (''~A()'' @ [nl])"
proof -
  have live: "heap one_shared_B 4096 = Some (B 3)"
    by (simp add: one_shared_B_def shared_ptr_from_raw_def new_B_def B_ctor_def
        start_state_def Let_def)
  have block: "blocks one_shared_B 0 = Some \<lparr>managed = Some 4096, uses = 1\<rparr>"
    by (simp add: one_shared_B_def shared_ptr_from_raw_def new_B_def start_state_def Let_def)
  have quiet: "cout one_shared_B = []"
    by (simp add: one_shared_B_def shared_ptr_from_raw_def new_B_def start_state_def Let_def)
  have ptr: "show_ptr 4096 = ''0x1000''"
    by (simp add: show_ptr_def show_hex.simps hex_char_def)
  from only_base_destructor_runs [OF live, of 0] live block quiet ptr
  show ?thesis
    by simp
qed

end
